theory Spec2Isabelle
  imports Main "HOL-Library.Sublist" "HOL-Library.Multiset"
begin

section \<open>Python strings\<close>

text \<open>
  A Python \<open>str\<close> is a sequence of Unicode code points. It is modelled as the list of
  its code points, so that the whitespace test of \<open>str.strip\<close> can be written out for
  the whole of Unicode. \<open>py\<close> turns an ASCII literal of the source into such a list.
\<close>

type_synonym str = "nat list"

definition py :: "string \<Rightarrow> str" where
  "py s = map of_char s"

text \<open>The newline character, \<open>"\n"\<close> in the source.\<close>

definition NL :: str where
  "NL = [10]"

text \<open>\<open>s.endswith(suf)\<close> and \<open>sub in s\<close>.\<close>

definition endswith :: "str \<Rightarrow> str \<Rightarrow> bool" where
  "endswith s suf = suffix suf s"

definition contains :: "str \<Rightarrow> str \<Rightarrow> bool" where
  "contains sub s = sublist sub s"

text \<open>\<open>sep.join(xs)\<close>: the separator stands between two neighbours only.\<close>

fun join :: "str \<Rightarrow> str list \<Rightarrow> str" where
  "join sep [] = []"
| "join sep [x] = x"
| "join sep (x # y # ys) = x @ sep @ join sep (y # ys)"

text \<open>
  \<open>str.isspace\<close> of one character, as CPython decides it: the code points of
  bidirectional type WS, B or S, or of category Zs.
\<close>

definition isspace :: "nat \<Rightarrow> bool" where
  "isspace c =
     ((9 \<le> c \<and> c \<le> 13) \<or> (28 \<le> c \<and> c \<le> 32) \<or> c = 133 \<or> c = 160 \<or> c = 5760
      \<or> (8192 \<le> c \<and> c \<le> 8202) \<or> c = 8232 \<or> c = 8233 \<or> c = 8239 \<or> c = 8287
      \<or> c = 12288)"

text \<open>\<open>s.strip()\<close>: whitespace removed at both ends.\<close>

definition strip :: "str \<Rightarrow> str" where
  "strip s = rev (dropWhile isspace (rev (dropWhile isspace s)))"

text \<open>
  \<open>s.split("\n")\<close>: the pieces between newlines; the empty string has one empty piece.
  The program itself never splits; the operation is the reading of an exported text
  back into lines.
\<close>

fun split_lines :: "str \<Rightarrow> str list" where
  "split_lines [] = [[]]"
| "split_lines (c # cs) =
     (if c = 10 then [] # split_lines cs
      else (case split_lines cs of
              [] \<Rightarrow> [[c]]
            | p # ps \<Rightarrow> (c # p) # ps))"

section \<open>The question/answer classifier\<close>

text \<open>
  The loop of \<open>split_qa\<close>, with its two accumulators \<open>questions\<close> and \<open>answers\<close>;
  \<open>append\<close> adds at the end.
\<close>

fun split_qa_loop :: "str list \<Rightarrow> str list \<Rightarrow> str list \<Rightarrow> str list \<times> str list" where
  "split_qa_loop [] questions answers = (questions, answers)"
| "split_qa_loop (line # lines) questions answers =
     (if endswith line (py ''?'') \<or> contains (py ''User A:'') line
         \<or> contains (py ''Question:'') line
      then split_qa_loop lines (questions @ [line]) answers
      else split_qa_loop lines questions (answers @ [line]))"

definition split_qa :: "str list \<Rightarrow> str \<times> str" where
  "split_qa lines =
     (case split_qa_loop lines [] [] of
        (questions, answers) \<Rightarrow> (join NL questions, join NL answers))"

text \<open>The two lists when the loop has ended, before they are joined.\<close>

definition questions_of :: "str list \<Rightarrow> str list" where
  "questions_of lines = fst (split_qa_loop lines [] [])"

definition answers_of :: "str list \<Rightarrow> str list" where
  "answers_of lines = snd (split_qa_loop lines [] [])"

text \<open>
  The classification rule in the words of the specification: the line ends with the
  character \<open>?\<close>, or the literal \<open>User A:\<close> occurs in it, or the literal \<open>Question:\<close>
  occurs in it.
\<close>

definition question_rule :: "str \<Rightarrow> bool" where
  "question_rule line =
     ((line \<noteq> [] \<and> last line = of_char CHR ''?'')
      \<or> (\<exists>before after. line = before @ py ''User A:'' @ after)
      \<or> (\<exists>before after. line = before @ py ''Question:'' @ after))"

text \<open>
  A paragraph with a line break inside it: \<open>paragraph.text\<close> of python-docx gives the
  break as a newline, and \<open>strip\<close> leaves it where it is.
\<close>

definition soft_break_line :: str where
  "soft_break_line = py ''User A: hi'' @ NL @ py ''there''"

section \<open>The summarization client\<close>

text \<open>
  A raised exception, with \<open>str(e)\<close>. \<open>except Exception\<close> catches the instances of
  \<open>Exception\<close> only: \<open>KeyboardInterrupt\<close>, \<open>SystemExit\<close> and \<open>GeneratorExit\<close> derive
  from \<open>BaseException\<close> directly and pass through such a handler.
\<close>

datatype raised = Exception str | Base_exception str

text \<open>
  What a call into the Azure SDK or into python-docx does is not decided by this program:
  it returns a value or raises an exception.
\<close>

datatype 'a outcome = Returns 'a | Raises raised

text \<open>
  One entry of the result of \<open>poller.result()\<close>: \<open>doc.is_error\<close>, \<open>doc.error.message\<close>
  and the \<open>text\<close> of each element of \<open>doc.summaries\<close>.
\<close>

record document =
  is_error :: bool
  error_message :: str
  summaries :: "str list"

text \<open>
  The behaviour of the SDK in one run: the constructor \<open>TextAnalyticsClient\<close> (with
  \<open>AzureKeyCredential\<close>), given the endpoint and the key; \<open>client.begin_abstract_summary\<close>,
  given the documents; \<open>poller.result()\<close>. The documents that the loop reads are the
  value of \<open>poller.result()\<close>; an exception while they are fetched is a \<open>Raises\<close> of it.
\<close>

record ('client, 'poller) sdk =
  TextAnalyticsClient :: "str \<Rightarrow> str \<Rightarrow> 'client outcome"
  begin_abstract_summary :: "'client \<Rightarrow> str list \<Rightarrow> 'poller outcome"
  poller_result :: "'poller \<Rightarrow> document list outcome"

text \<open>The calls into the SDK that a run has made, in order.\<close>

datatype call =
    New_client str str
  | Begin_abstract_summary "str list"
  | Poller_result

text \<open>\<open>AZURE_KEY\<close> and \<open>AZURE_ENDPOINT\<close> are globals of the script; here they are arguments.\<close>

definition get_language_client :: "('client, 'poller) sdk \<Rightarrow> str \<Rightarrow> str \<Rightarrow> 'client outcome" where
  "get_language_client azure AZURE_KEY AZURE_ENDPOINT =
     TextAnalyticsClient azure AZURE_ENDPOINT AZURE_KEY"

text \<open>
  The loop over \<open>result\<close> with its accumulator \<open>summary_out\<close>, and the expression
  returned after it. The first document that is an error ends the function.
\<close>

fun summarize_loop :: "document list \<Rightarrow> str list \<Rightarrow> str" where
  "summarize_loop [] summary_out =
     (if summary_out \<noteq> [] then join (py '' '') summary_out
      else py ''AI could not generate a summary.'')"
| "summarize_loop (doc # result) summary_out =
     (if \<not> is_error doc then summarize_loop result (summary_out @ summaries doc)
      else py ''Azure Service Error: '' @ error_message doc)"

text \<open>
  The handler of \<open>summarize_with_azure\<close>, \<open>except Exception as e\<close>: an instance of
  \<open>Exception\<close> becomes the returned string, anything else goes on.
\<close>

fun logic_error :: "raised \<Rightarrow> str outcome" where
  "logic_error (Exception e) = Returns (py ''Logic Error: '' @ e)"
| "logic_error (Base_exception e) = Raises (Base_exception e)"

text \<open>
  \<open>summarize_with_azure\<close>: the calls it made and what it returned or raised. The client
  is constructed before the \<open>try\<close> statement, so an exception of the constructor leaves
  the function whatever its kind; an exception of the two calls inside \<open>try\<close> goes to the
  handler.
\<close>

definition summarize_with_azure ::
  "('client, 'poller) sdk \<Rightarrow> str \<Rightarrow> str \<Rightarrow> str \<Rightarrow> call list \<times> str outcome" where
  "summarize_with_azure azure AZURE_KEY AZURE_ENDPOINT text_to_summarize =
     (if strip text_to_summarize = []
      then ([], Returns (py ''No answer text provided to summarize.''))
      else
        (case get_language_client azure AZURE_KEY AZURE_ENDPOINT of
           Raises e \<Rightarrow> ([New_client AZURE_ENDPOINT AZURE_KEY], Raises e)
         | Returns client \<Rightarrow>
             (case begin_abstract_summary azure client [text_to_summarize] of
                Raises e \<Rightarrow>
                  ([New_client AZURE_ENDPOINT AZURE_KEY,
                    Begin_abstract_summary [text_to_summarize]],
                   logic_error e)
              | Returns poller \<Rightarrow>
                  (case poller_result azure poller of
                     Raises e \<Rightarrow>
                       ([New_client AZURE_ENDPOINT AZURE_KEY,
                         Begin_abstract_summary [text_to_summarize], Poller_result],
                        logic_error e)
                   | Returns result \<Rightarrow>
                       ([New_client AZURE_ENDPOINT AZURE_KEY,
                         Begin_abstract_summary [text_to_summarize], Poller_result],
                        Returns (summarize_loop result []))))))"

text \<open>
  A test double of the SDK: the three calls have the given outcomes, whatever their
  arguments.
\<close>

definition test_double ::
  "unit outcome \<Rightarrow> unit outcome \<Rightarrow> document list outcome \<Rightarrow> (unit, unit) sdk" where
  "test_double constructed submitted polled =
     \<lparr>TextAnalyticsClient = (\<lambda>endpoint key. constructed),
      begin_abstract_summary = (\<lambda>client documents. submitted),
      poller_result = (\<lambda>poller. polled)\<rparr>"

section \<open>The page\<close>

text \<open>
  \<open>read_docx\<close>: \<open>docx.Document(file)\<close> gives the paragraphs of the file or raises; the
  texts are stripped and the empty ones dropped.
\<close>

definition read_docx :: "str list outcome \<Rightarrow> str list outcome" where
  "read_docx file =
     (case file of
        Raises e \<Rightarrow> Raises e
      | Returns paragraphs \<Rightarrow>
          Returns (map strip (filter (\<lambda>para. strip para \<noteq> []) paragraphs)))"

text \<open>What one run of the script does, in order: the functions it calls and what it shows.\<close>

datatype event =
    Call_read_docx
  | Call_split_qa "str list"
  | Call_summarize_with_azure str
  | Azure call
  | St_error str
  | St_warning str
  | St_info str
  | St_success str
  | St_subheader str
  | St_text_area str str
  | St_download_button str str str
  | St_divider
  | Uncaught raised

text \<open>
  The inputs of one run: the SDK, the two sidebar fields, the uploader (\<open>None\<close> when no
  file is there, otherwise what parsing the file gives) and whether the button was
  pressed.
\<close>

record ('client, 'poller) session =
  azure_sdk :: "('client, 'poller) sdk"
  azure_key :: str
  azure_endpoint :: str
  uploaded_file :: "str list outcome option"
  button :: bool

definition display_results :: "str \<Rightarrow> str \<Rightarrow> str \<Rightarrow> event list" where
  "display_results questions_txt answers_txt summary_txt =
     [St_success (py '' Analysis Complete!''),
      St_subheader (py '' Extracted Questions''),
      St_text_area (py ''Questions List'') questions_txt,
      St_download_button (py ''Download Questions (.txt)'') questions_txt (py ''questions.txt''),
      St_subheader (py '' Extracted Answers''),
      St_text_area (py ''Answers List'') answers_txt,
      St_download_button (py ''Download Answers (.txt)'') answers_txt (py ''answers.txt''),
      St_divider,
      St_subheader (py '' AI-Generated Summary of Answers''),
      St_info summary_txt,
      St_download_button (py ''Download Summary (.txt)'') summary_txt (py ''summary_final.txt'')]"

text \<open>
  The body of the button: the empty-file message, or the analysis inside \<open>try\<close>, whose
  handler \<open>except Exception as e\<close> shows an instance of \<open>Exception\<close> as a critical error
  and lets anything else go on.
\<close>

definition analyze :: "('client, 'poller) session \<Rightarrow> str list \<Rightarrow> event list" where
  "analyze s lines =
     (if lines = [] then [St_error (py ''The uploaded file appears to be empty.'')]
      else
        (case split_qa lines of
           (questions_txt, answers_txt) \<Rightarrow>
             (case summarize_with_azure (azure_sdk s) (azure_key s) (azure_endpoint s)
                     answers_txt of
                (calls, summary) \<Rightarrow>
                  Call_split_qa lines # Call_summarize_with_azure answers_txt
                  # map Azure calls
                  @ (case summary of
                       Raises (Exception e) \<Rightarrow> [St_error (py ''Critical Error: '' @ e)]
                     | Raises (Base_exception e) \<Rightarrow> [Uncaught (Base_exception e)]
                     | Returns summary_txt \<Rightarrow>
                         display_results questions_txt answers_txt summary_txt))))"

text \<open>
  The script from the uploader on. A Python string is true when it is not empty, an
  uploaded file when it is there. An exception of \<open>read_docx\<close> is outside every \<open>try\<close>.
\<close>

definition app :: "('client, 'poller) session \<Rightarrow> event list" where
  "app s =
     (if uploaded_file s \<noteq> None \<and> azure_key s \<noteq> [] \<and> azure_endpoint s \<noteq> []
      then
        (case uploaded_file s of
           None \<Rightarrow> []
         | Some file \<Rightarrow>
             Call_read_docx
             # (case read_docx file of
                  Raises e \<Rightarrow> [Uncaught e]
                | Returns lines \<Rightarrow> (if button s then analyze s lines else [])))
      else if \<not> (azure_key s \<noteq> [] \<and> azure_endpoint s \<noteq> [])
        then [St_warning
                (py ''Please enter your Azure Language Key and Endpoint in the sidebar.'')]
        else [St_info (py '' Please upload a .docx file to get started.'')])"

text \<open>
  The stages of the pipeline, as the specification lists them: extraction
  (\<open>read_docx\<close>), classification (\<open>split_qa\<close>) and summarization
  (\<open>summarize_with_azure\<close> with its calls into the SDK).
\<close>

fun is_pipeline :: "event \<Rightarrow> bool" where
  "is_pipeline Call_read_docx = True"
| "is_pipeline (Call_split_qa lines) = True"
| "is_pipeline (Call_summarize_with_azure answers_txt) = True"
| "is_pipeline (Azure c) = True"
| "is_pipeline e = False"

text \<open>The stages after extraction: classification and summarization.\<close>

fun is_classify_or_summarize :: "event \<Rightarrow> bool" where
  "is_classify_or_summarize (Call_split_qa lines) = True"
| "is_classify_or_summarize (Call_summarize_with_azure answers_txt) = True"
| "is_classify_or_summarize (Azure c) = True"
| "is_classify_or_summarize e = False"

text \<open>
  A session for examples: the given sidebar fields, uploader and button, and a test double
  of the SDK that answers with one summary fragment.
\<close>

definition session_with ::
  "str \<Rightarrow> str \<Rightarrow> str list outcome option \<Rightarrow> bool \<Rightarrow> (unit, unit) session" where
  "session_with key endpoint file pressed =
     \<lparr>azure_sdk =
        test_double (Returns ()) (Returns ())
          (Returns [\<lparr>is_error = False, error_message = [], summaries = [py ''Fine.'']\<rparr>]),
      azure_key = key, azure_endpoint = endpoint, uploaded_file = file, button = pressed\<rparr>"

section \<open>The classifier: rule and partition\<close>

lemma endswith_question_mark:
  "endswith line (py ''?'') \<longleftrightarrow> line \<noteq> [] \<and> last line = of_char CHR ''?''"
proof (cases line rule: rev_cases)
  case Nil
  then show ?thesis by (simp add: endswith_def py_def)
next
  case (snoc front c)
  then show ?thesis by (auto simp: endswith_def py_def)
qed

lemma contains_iff: "contains sub s \<longleftrightarrow> (\<exists>before after. s = before @ sub @ after)"
  by (simp add: contains_def sublist_def)

lemma source_test_is_rule:
  "(endswith line (py ''?'') \<or> contains (py ''User A:'') line
      \<or> contains (py ''Question:'') line) = question_rule line"
  unfolding question_rule_def endswith_question_mark contains_iff ..

lemma split_qa_loop_filter:
  "split_qa_loop lines questions answers =
     (questions @ filter question_rule lines,
      answers @ filter (\<lambda>line. \<not> question_rule line) lines)"
proof (induction lines arbitrary: questions answers)
  case Nil
  then show ?case by simp
next
  case (Cons line lines)
  show ?case
  proof (cases "question_rule line")
    case True
    then show ?thesis
      using Cons.IH [of "questions @ [line]" answers]
      by (simp add: source_test_is_rule)
  next
    case False
    then show ?thesis
      using Cons.IH [of questions "answers @ [line]"]
      by (simp add: source_test_is_rule)
  qed
qed

lemma questions_of_filter: "questions_of lines = filter question_rule lines"
  by (simp add: questions_of_def split_qa_loop_filter)

lemma answers_of_filter: "answers_of lines = filter (\<lambda>line. \<not> question_rule line) lines"
  by (simp add: answers_of_def split_qa_loop_filter)

lemma split_qa_joined:
  "split_qa lines = (join NL (questions_of lines), join NL (answers_of lines))"
  by (simp add: split_qa_def questions_of_def answers_of_def split_beta)

text \<open>
  C1. Whether a line is a question is decided by the line alone: it is one exactly when
  it ends with \<open>?\<close> or holds \<open>User A:\<close> or \<open>Question:\<close>, letter for letter. The
  questions are the lines of the input that meet the rule and the answers are those that
  do not, each line unchanged; a single line comes back as it is, on the side the rule
  gives it.
\<close>

theorem split_qa_classifies_by_rule:
  "questions_of lines = filter question_rule lines
   \<and> answers_of lines = filter (\<lambda>line. \<not> question_rule line) lines
   \<and> split_qa [line] = (if question_rule line then (line, []) else ([], line))"
  by (simp add: questions_of_filter answers_of_filter split_qa_joined)


lemma join_closed_form: "join sep (x # xs) = x @ concat (map (\<lambda>y. sep @ y) xs)"
  by (induction xs arbitrary: x) simp_all

section \<open>Reading the outputs back\<close>

lemma split_lines_not_Nil: "split_lines s \<noteq> []"
  by (induction s) (auto split: list.splits)

lemma split_lines_no_newline: "10 \<notin> set l \<Longrightarrow> split_lines l = [l]"
  by (induction l) auto

lemma split_lines_append_newline:
  "10 \<notin> set l \<Longrightarrow> split_lines (l @ 10 # rest) = l # split_lines rest"
  by (induction l) (auto split: list.splits)

lemma split_lines_join:
  "xs \<noteq> [] \<Longrightarrow> \<forall>l\<in>set xs. 10 \<notin> set l \<Longrightarrow> split_lines (join NL xs) = xs"
proof (induction xs)
  case Nil
  then show ?case by simp
next
  case (Cons x xs)
  show ?case
  proof (cases xs)
    case Nil
    then show ?thesis using Cons.prems by (simp add: split_lines_no_newline)
  next
    case (Cons y ys)
    then show ?thesis
      using Cons.IH Cons.prems by (simp add: NL_def split_lines_append_newline)
  qed
qed

text \<open>
  C7. The empty sequence gives two empty strings. In general the first output is the
  lines of the input that are questions, in the order of the input, joined by newlines,
  and the second output is the same of the lines that are answers: the first such line,
  then every further one after one newline. When no line holds a newline itself, an
  output that has lines reads back, split at its newlines, as exactly those lines: one
  line per entry.
\<close>

theorem split_qa_newline_joined:
  "split_qa [] = ([], [])
   \<and> split_qa lines
       = (join NL (filter question_rule lines),
          join NL (filter (\<lambda>line. \<not> question_rule line) lines))
   \<and> join NL [] = []
   \<and> join NL (x # xs) = x @ concat (map (\<lambda>y. NL @ y) xs)
   \<and> ((\<forall>line\<in>set lines. 10 \<notin> set line) \<and> filter question_rule lines \<noteq> [] \<longrightarrow>
        split_lines (fst (split_qa lines)) = filter question_rule lines)
   \<and> ((\<forall>line\<in>set lines. 10 \<notin> set line)
        \<and> filter (\<lambda>line. \<not> question_rule line) lines \<noteq> [] \<longrightarrow>
        split_lines (snd (split_qa lines)) = filter (\<lambda>line. \<not> question_rule line) lines)"
proof -
  have empty: "split_qa [] = ([], [])"
    by (simp add: split_qa_def)
  have joined: "split_qa lines
       = (join NL (filter question_rule lines),
          join NL (filter (\<lambda>line. \<not> question_rule line) lines))"
    by (simp add: split_qa_joined questions_of_filter answers_of_filter)
  have questions_back:
    "(\<forall>line\<in>set lines. 10 \<notin> set line) \<and> filter question_rule lines \<noteq> [] \<longrightarrow>
        split_lines (fst (split_qa lines)) = filter question_rule lines"
    unfolding joined by (simp add: split_lines_join)
  have answers_back:
    "(\<forall>line\<in>set lines. 10 \<notin> set line)
        \<and> filter (\<lambda>line. \<not> question_rule line) lines \<noteq> [] \<longrightarrow>
        split_lines (snd (split_qa lines)) = filter (\<lambda>line. \<not> question_rule line) lines"
    unfolding joined by (simp add: split_lines_join)
  from empty joined questions_back answers_back show ?thesis
    by (simp add: join_closed_form)
qed

theorem split_qa_newline_joined_witness:
  "split_qa [py ''Is this correct?'', py ''It works fine.'', py ''User A: hello'']
     = (py ''Is this correct?'' @ NL @ py ''User A: hello'', py ''It works fine.'')
   \<and> split_lines
        (fst (split_qa [py ''Is this correct?'', py ''It works fine.'', py ''User A: hello'']))
     = [py ''Is this correct?'', py ''User A: hello'']
   \<and> split_lines
        (snd (split_qa [py ''Is this correct?'', py ''It works fine.'', py ''User A: hello'']))
     = [py ''It works fine.'']"
proof -
  have "questions_of [py ''Is this correct?'', py ''It works fine.'', py ''User A: hello'']
          = [py ''Is this correct?'', py ''User A: hello'']"
    by code_simp
  then have questions:
    "filter question_rule [py ''Is this correct?'', py ''It works fine.'', py ''User A: hello'']
       = [py ''Is this correct?'', py ''User A: hello'']"
    by (simp only: questions_of_filter)
  have "answers_of [py ''Is this correct?'', py ''It works fine.'', py ''User A: hello'']
          = [py ''It works fine.'']"
    by code_simp
  then have answers:
    "filter (\<lambda>line. \<not> question_rule line)
         [py ''Is this correct?'', py ''It works fine.'', py ''User A: hello'']
       = [py ''It works fine.'']"
    by (simp only: answers_of_filter)
  have no_newline:
    "\<forall>line\<in>set [py ''Is this correct?'', py ''It works fine.'', py ''User A: hello''].
        10 \<notin> set line"
    by (simp add: py_def)
  have non_empty:
    "[py ''Is this correct?'', py ''User A: hello''] \<noteq> []" "[py ''It works fine.''] \<noteq> []"
    by simp_all
  note at_input =
    split_qa_newline_joined
      [of "[py ''Is this correct?'', py ''It works fine.'', py ''User A: hello'']" "[]" "[]",
       unfolded questions answers]
  from at_input have joined:
    "split_qa [py ''Is this correct?'', py ''It works fine.'', py ''User A: hello'']
       = (join NL [py ''Is this correct?'', py ''User A: hello''],
          join NL [py ''It works fine.''])"
    by blast
  from at_input no_newline non_empty have questions_back:
    "split_lines
        (fst (split_qa [py ''Is this correct?'', py ''It works fine.'', py ''User A: hello'']))
     = [py ''Is this correct?'', py ''User A: hello'']"
    by blast
  from at_input no_newline non_empty have answers_back:
    "split_lines
        (snd (split_qa [py ''Is this correct?'', py ''It works fine.'', py ''User A: hello'']))
     = [py ''It works fine.'']"
    by blast
  from joined have
    "split_qa [py ''Is this correct?'', py ''It works fine.'', py ''User A: hello'']
       = (py ''Is this correct?'' @ NL @ py ''User A: hello'', py ''It works fine.'')"
    by simp
  with questions_back answers_back show ?thesis
    by (intro conjI)
qed

lemma empty_line_is_answer: "\<not> question_rule []"
  by (simp add: question_rule_def py_def)

lemma split_qa_all_questions:
  "\<forall>l\<in>set xs. question_rule l \<Longrightarrow> split_qa xs = (join NL xs, [])"
  by (simp add: split_qa_joined questions_of_filter answers_of_filter)

lemma split_qa_all_answers:
  "\<forall>l\<in>set xs. \<not> question_rule l \<Longrightarrow> split_qa xs = ([], join NL xs)"
  by (simp add: split_qa_joined questions_of_filter answers_of_filter)

lemma reclassify_questions:
  assumes "\<forall>l\<in>set xs. 10 \<notin> set l" "\<forall>l\<in>set xs. question_rule l"
  shows "split_qa (split_lines (join NL xs)) = (join NL xs, [])"
proof (cases "xs = []")
  case True
  then show ?thesis
    by (simp add: split_qa_all_answers empty_line_is_answer)
next
  case False
  then show ?thesis
    using assms by (simp add: split_lines_join split_qa_all_questions)
qed

lemma reclassify_answers:
  assumes "\<forall>l\<in>set xs. 10 \<notin> set l" "\<forall>l\<in>set xs. \<not> question_rule l"
  shows "split_qa (split_lines (join NL xs)) = ([], join NL xs)"
proof (cases "xs = []")
  case True
  then show ?thesis
    by (simp add: split_qa_all_answers empty_line_is_answer)
next
  case False
  then show ?thesis
    using assms by (simp add: split_lines_join split_qa_all_answers)
qed

text \<open>
  C9, as amended. When no line of the input holds a newline character: the questions
  text, split at its newlines and classified again, gives the same questions text and no
  answers, and the answers text gives no questions and the same answers text.
\<close>

theorem reclassification_stable_without_newlines:
  assumes "\<forall>line\<in>set lines. 10 \<notin> set line" and "split_qa lines = (Q, A)"
  shows "split_qa (split_lines Q) = (Q, []) \<and> split_qa (split_lines A) = ([], A)"
proof -
  have Q: "Q = join NL (questions_of lines)" and A: "A = join NL (answers_of lines)"
    using assms(2) by (simp_all add: split_qa_joined)
  have "split_qa (split_lines Q) = (Q, [])"
    unfolding Q using assms(1)
    by (intro reclassify_questions) (auto simp: questions_of_filter)
  moreover have "split_qa (split_lines A) = ([], A)"
    unfolding A using assms(1)
    by (intro reclassify_answers) (auto simp: answers_of_filter)
  ultimately show ?thesis by simp
qed

theorem reclassification_stable_witness:
  "split_qa [py ''Is this correct?'', py ''It works fine.'']
     = (py ''Is this correct?'', py ''It works fine.'')
   \<and> split_qa (split_lines (py ''Is this correct?'')) = (py ''Is this correct?'', [])
   \<and> split_qa (split_lines (py ''It works fine.'')) = ([], py ''It works fine.'')"
proof -
  have no_newline:
    "\<forall>line\<in>set [py ''Is this correct?'', py ''It works fine.'']. 10 \<notin> set line"
    by (simp add: py_def)
  have classified:
    "split_qa [py ''Is this correct?'', py ''It works fine.'']
       = (py ''Is this correct?'', py ''It works fine.'')"
    by code_simp
  show ?thesis
    using reclassification_stable_without_newlines [OF no_newline classified] classified
    by simp
qed

text \<open>
  The claim C9 as it is stated fails for a line with a newline inside: \<open>read_docx\<close>
  keeps the one line \<open>soft_break_line\<close> as it is, the line is a question, and read
  back it is two lines, of which the second is an answer.
\<close>

theorem reclassification_splits_line_with_newline:
  "read_docx (Returns [soft_break_line]) = Returns [soft_break_line]
   \<and> split_qa [soft_break_line] = (soft_break_line, [])
   \<and> soft_break_line \<noteq> []
   \<and> split_qa (split_lines soft_break_line) = (py ''User A: hi'', py ''there'')
   \<and> split_qa (split_lines soft_break_line) \<noteq> (soft_break_line, [])"
proof -
  have "read_docx (Returns [soft_break_line]) = Returns [soft_break_line]"
    by (simp add: read_docx_def strip_def isspace_def soft_break_line_def py_def NL_def)
  moreover have "split_qa [soft_break_line] = (soft_break_line, [])"
    by code_simp
  moreover have "soft_break_line \<noteq> []"
    by (simp add: soft_break_line_def py_def)
  moreover have
    "split_qa (split_lines soft_break_line) = (py ''User A: hi'', py ''there'')"
    by code_simp
  moreover have "(py ''User A: hi'', py ''there'') \<noteq> (soft_break_line, [])"
    by (simp add: py_def)
  ultimately show ?thesis by simp
qed

section \<open>The summarization client: what it returns\<close>

lemma strip_empty_iff: "strip s = [] \<longleftrightarrow> (\<forall>c\<in>set s. isspace c)"
proof
  assume "strip s = []"
  then have "\<forall>c\<in>set (dropWhile isspace s). isspace c"
    by (simp add: strip_def dropWhile_eq_Nil_conv)
  then have "dropWhile isspace s = []"
    using hd_dropWhile [of isspace s] hd_in_set [of "dropWhile isspace s"] by blast
  then show "\<forall>c\<in>set s. isspace c"
    by (simp add: dropWhile_eq_Nil_conv)
next
  assume "\<forall>c\<in>set s. isspace c"
  then have dropped: "dropWhile isspace s = []"
    by (induction s) simp_all
  show "strip s = []"
    unfolding strip_def dropped by simp
qed

lemma summarize_loop_no_error:
  "\<forall>doc\<in>set result. \<not> is_error doc \<Longrightarrow>
   summarize_loop result summary_out =
     (if summary_out @ concat (map summaries result) \<noteq> []
      then join (py '' '') (summary_out @ concat (map summaries result))
      else py ''AI could not generate a summary.'')"
  by (induction result arbitrary: summary_out) simp_all

lemma summarize_loop_first_error:
  "\<forall>d\<in>set before. \<not> is_error d \<Longrightarrow> is_error doc \<Longrightarrow>
   summarize_loop (before @ doc # after) summary_out
     = py ''Azure Service Error: '' @ error_message doc"
  by (induction before arbitrary: summary_out) simp_all

lemma strip_example: "strip (py ''It works fine.'') \<noteq> []"
  by (simp add: strip_def py_def isspace_def)

lemma test_double_calls:
  "get_language_client (test_double constructed submitted polled) key endpoint = constructed"
  "begin_abstract_summary (test_double constructed submitted polled) client documents
     = submitted"
  "poller_result (test_double constructed submitted polled) poller = polled"
  by (simp_all add: get_language_client_def test_double_def)

lemma exception_in_submission_is_returned:
  assumes "strip text_to_summarize \<noteq> []"
    and "get_language_client azure AZURE_KEY AZURE_ENDPOINT = Returns client"
    and "begin_abstract_summary azure client [text_to_summarize] = Raises (Exception e)"
  shows "snd (summarize_with_azure azure AZURE_KEY AZURE_ENDPOINT text_to_summarize)
           = Returns (py ''Logic Error: '' @ e)"
  using assms by (simp add: summarize_with_azure_def)

lemma exception_in_polling_is_returned:
  assumes "strip text_to_summarize \<noteq> []"
    and "get_language_client azure AZURE_KEY AZURE_ENDPOINT = Returns client"
    and "begin_abstract_summary azure client [text_to_summarize] = Returns poller"
    and "poller_result azure poller = Raises (Exception e)"
  shows "snd (summarize_with_azure azure AZURE_KEY AZURE_ENDPOINT text_to_summarize)
           = Returns (py ''Logic Error: '' @ e)"
  using assms by (simp add: summarize_with_azure_def)

lemma exception_of_constructor_is_raised:
  assumes "strip text_to_summarize \<noteq> []"
    and "get_language_client azure AZURE_KEY AZURE_ENDPOINT = Raises e"
  shows "snd (summarize_with_azure azure AZURE_KEY AZURE_ENDPOINT text_to_summarize)
           = Raises e"
  using assms by (simp add: summarize_with_azure_def)

text \<open>
  C3. The claim asks that no exception of the service leaves \<open>summarize_with_azure\<close>,
  also one raised while the client is constructed. The code does not do that: for the
  text \<open>It works fine.\<close> and a constructor that raises an \<open>Exception\<close> with the text
  \<open>invalid endpoint\<close>, the function makes the one call and raises that exception, and
  returns no string. The same exception raised by \<open>begin_abstract_summary\<close> or by
  \<open>poller.result()\<close>, the two calls inside \<open>try\<close>, is returned as
  \<open>Logic Error: invalid endpoint\<close>.
\<close>

theorem constructor_exception_escapes:
  "strip (py ''It works fine.'') \<noteq> []
   \<and> summarize_with_azure
       (test_double (Raises (Exception (py ''invalid endpoint''))) (Returns ()) (Returns []))
       (py ''key'') (py ''endpoint'') (py ''It works fine.'')
     = ([New_client (py ''endpoint'') (py ''key'')],
        Raises (Exception (py ''invalid endpoint'')))
   \<and> \<not> (\<exists>displayed.
          snd (summarize_with_azure
                 (test_double (Raises (Exception (py ''invalid endpoint''))) (Returns ())
                    (Returns []))
                 (py ''key'') (py ''endpoint'') (py ''It works fine.''))
            = Returns displayed)
   \<and> snd (summarize_with_azure
            (test_double (Returns ()) (Raises (Exception (py ''invalid endpoint'')))
               (Returns []))
            (py ''key'') (py ''endpoint'') (py ''It works fine.''))
     = Returns (py ''Logic Error: invalid endpoint'')
   \<and> snd (summarize_with_azure
            (test_double (Returns ()) (Returns ())
               (Raises (Exception (py ''invalid endpoint''))))
            (py ''key'') (py ''endpoint'') (py ''It works fine.''))
     = Returns (py ''Logic Error: invalid endpoint'')"
proof -
  have "py ''Logic Error: '' @ py ''invalid endpoint'' = py ''Logic Error: invalid endpoint''"
    by (simp add: py_def)
  then show ?thesis
    by (simp add: summarize_with_azure_def test_double_calls strip_example)
qed

text \<open>
  C4. A text that is empty or holds only whitespace gives the placeholder
  \<open>No answer text provided to summarize.\<close>, and no call into the SDK is made: no client
  is constructed, nothing is submitted.
\<close>

theorem blank_text_returns_placeholder:
  "\<forall>c\<in>set text_to_summarize. isspace c \<Longrightarrow>
   summarize_with_azure azure AZURE_KEY AZURE_ENDPOINT text_to_summarize
     = ([], Returns (py ''No answer text provided to summarize.''))"
  by (simp add: summarize_with_azure_def strip_empty_iff)

theorem blank_text_witness:
  "summarize_with_azure (test_double (Raises (Exception (py ''no network''))) (Returns ()) (Returns []))
     (py ''key'') (py ''endpoint'') [32, 9, 10, 160, 8195]
     = ([], Returns (py ''No answer text provided to summarize.''))
   \<and> summarize_with_azure (test_double (Returns ()) (Returns ()) (Returns []))
     (py ''key'') (py ''endpoint'') []
     = ([], Returns (py ''No answer text provided to summarize.''))"
proof -
  have "\<forall>c\<in>set [32, 9, 10, 160, 8195]. isspace c"
    by (simp add: isspace_def)
  moreover have "\<forall>c\<in>set ([] :: str). isspace c"
    by simp
  ultimately show ?thesis
    using blank_text_returns_placeholder by blast
qed

text \<open>
  C5. For a text that is not blank, when the documents that the service returns report an
  error with message \<open>m\<close> (the first document that is an error, when there are several),
  the function returns \<open>Azure Service Error: \<close> followed by \<open>m\<close>: a string that starts
  with the prefix and holds \<open>m\<close>.
\<close>

theorem service_error_is_returned:
  assumes "strip text_to_summarize \<noteq> []"
    and "get_language_client azure AZURE_KEY AZURE_ENDPOINT = Returns client"
    and "begin_abstract_summary azure client [text_to_summarize] = Returns poller"
    and "poller_result azure poller = Returns (before @ doc # after)"
    and "\<forall>d\<in>set before. \<not> is_error d"
    and "is_error doc" and "error_message doc = m"
  shows "\<exists>displayed.
           snd (summarize_with_azure azure AZURE_KEY AZURE_ENDPOINT text_to_summarize)
             = Returns displayed
           \<and> displayed = py ''Azure Service Error: '' @ m
           \<and> prefix (py ''Azure Service Error: '') displayed
           \<and> contains m displayed"
  using assms
  by (simp add: summarize_with_azure_def summarize_loop_first_error contains_def)

theorem service_error_witness:
  "snd (summarize_with_azure
          (test_double (Returns ()) (Returns ())
             (Returns [\<lparr>is_error = True, error_message = py ''rate limited'',
                        summaries = []\<rparr>]))
          (py ''key'') (py ''endpoint'') (py ''It works fine.''))
     = Returns (py ''Azure Service Error: rate limited'')
   \<and> contains (py ''rate limited'') (py ''Azure Service Error: rate limited'')"
  using service_error_is_returned
      [where text_to_summarize = "py ''It works fine.''"
         and azure = "test_double (Returns ()) (Returns ())
             (Returns [\<lparr>is_error = True, error_message = py ''rate limited'',
                        summaries = []\<rparr>])"
         and AZURE_KEY = "py ''key''" and AZURE_ENDPOINT = "py ''endpoint''"
         and client = "()" and poller = "()" and before = "[]"
         and doc = "\<lparr>is_error = True, error_message = py ''rate limited'',
                      summaries = []\<rparr>"
         and after = "[]" and m = "py ''rate limited''"]
  by (simp add: test_double_calls strip_example) (simp add: py_def)

text \<open>
  C6. For a text that is not blank, when no returned document is an error, the function
  returns the summary fragments of all documents, in order, joined by one space; with no
  fragment at all it returns \<open>AI could not generate a summary.\<close>
\<close>

theorem summary_fragments_are_joined:
  assumes "strip text_to_summarize \<noteq> []"
    and "get_language_client azure AZURE_KEY AZURE_ENDPOINT = Returns client"
    and "begin_abstract_summary azure client [text_to_summarize] = Returns poller"
    and "poller_result azure poller = Returns result"
    and "\<forall>doc\<in>set result. \<not> is_error doc"
  shows "snd (summarize_with_azure azure AZURE_KEY AZURE_ENDPOINT text_to_summarize)
           = Returns (if concat (map summaries result) = []
                      then py ''AI could not generate a summary.''
                      else join (py '' '') (concat (map summaries result)))"
  using assms
  by (simp add: summarize_with_azure_def summarize_loop_no_error)

theorem summary_fragments_witness:
  "snd (summarize_with_azure
          (test_double (Returns ()) (Returns ())
             (Returns [\<lparr>is_error = False, error_message = [],
                        summaries = [py ''It works.'', py ''All is fine.'']\<rparr>]))
          (py ''key'') (py ''endpoint'') (py ''It works fine.''))
     = Returns (py ''It works. All is fine.'')
   \<and> snd (summarize_with_azure
          (test_double (Returns ()) (Returns ())
             (Returns [\<lparr>is_error = False, error_message = [], summaries = []\<rparr>]))
          (py ''key'') (py ''endpoint'') (py ''It works fine.''))
     = Returns (py ''AI could not generate a summary.'')"
  using summary_fragments_are_joined
      [of "py ''It works fine.''"
          "test_double (Returns ()) (Returns ())
             (Returns [\<lparr>is_error = False, error_message = [],
                        summaries = [py ''It works.'', py ''All is fine.'']\<rparr>])"
          "py ''key''" "py ''endpoint''" "()" "()"
          "[\<lparr>is_error = False, error_message = [],
             summaries = [py ''It works.'', py ''All is fine.'']\<rparr>]"]
    summary_fragments_are_joined
      [of "py ''It works fine.''"
          "test_double (Returns ()) (Returns ())
             (Returns [\<lparr>is_error = False, error_message = [], summaries = []\<rparr>])"
          "py ''key''" "py ''endpoint''" "()" "()"
          "[\<lparr>is_error = False, error_message = [], summaries = []\<rparr>]"]
  by (simp add: test_double_calls strip_example) (simp add: py_def)

text \<open>
  C10. For a text that is empty or holds only whitespace, the result does not depend on
  the key, on the endpoint or on what the service would do: two runs on the same blank
  text give the same result.
\<close>

theorem blank_text_ignores_credentials:
  "\<forall>c\<in>set text_to_summarize. isspace c \<Longrightarrow>
   summarize_with_azure azure AZURE_KEY AZURE_ENDPOINT text_to_summarize
     = summarize_with_azure azure' AZURE_KEY' AZURE_ENDPOINT' text_to_summarize"
  by (simp add: summarize_with_azure_def strip_empty_iff)

theorem blank_text_ignores_credentials_witness:
  "summarize_with_azure (test_double (Returns ()) (Returns ()) (Returns []))
     (py ''key one'') (py ''https://one.example'') [32, 10, 32]
   = summarize_with_azure (test_double (Raises (Exception (py ''bad key''))) (Returns ()) (Returns []))
     (py ''key two'') [] [32, 10, 32]"
proof -
  have "\<forall>c\<in>set [32, 10, 32]. isspace c"
    by (simp add: isspace_def)
  then show ?thesis
    by (rule blank_text_ignores_credentials)
qed

section \<open>The page: when the pipeline runs\<close>

lemma analyze_runs:
  "lines \<noteq> [] \<Longrightarrow> Call_split_qa lines \<in> set (analyze s lines)"
  by (simp add: analyze_def split_beta)

lemma app_gate_closed:
  "\<not> (uploaded_file s \<noteq> None \<and> azure_key s \<noteq> [] \<and> azure_endpoint s \<noteq> []) \<Longrightarrow>
   e \<in> set (app s) \<Longrightarrow> \<not> is_pipeline e"
  by (auto simp: app_def split: if_splits)

lemma classify_or_summarize_is_pipeline: "is_classify_or_summarize e \<Longrightarrow> is_pipeline e"
  by (cases e) simp_all

lemma app_not_pressed:
  "\<not> button s \<Longrightarrow> e \<in> set (app s) \<Longrightarrow> \<not> is_classify_or_summarize e"
  by (auto simp: app_def split: if_splits option.splits outcome.splits)

lemma app_gate_open:
  "uploaded_file s \<noteq> None \<and> azure_key s \<noteq> [] \<and> azure_endpoint s \<noteq> [] \<Longrightarrow>
   Call_read_docx \<in> set (app s)"
  by (auto simp: app_def split: option.splits)

text \<open>
  C8, as amended. A stage of the pipeline runs only when a file is uploaded and the key
  and the endpoint are both non-empty. Classification and summarization run only when,
  besides, the button was pressed; and with a file that reads to at least one line they
  do run then. Extraction does not wait for the button: \<open>read_docx\<close> runs whenever a file
  is uploaded and the key and the endpoint are non-empty. When the key or the endpoint
  is empty the page shows the warning that asks for them and nothing else; when both are
  there and no file is uploaded it shows the note that asks for a file and nothing else;
  the two messages differ.
\<close>

theorem pipeline_is_gated:
  "((\<exists>e\<in>set (app s). is_pipeline e) \<longrightarrow>
      uploaded_file s \<noteq> None \<and> azure_key s \<noteq> [] \<and> azure_endpoint s \<noteq> [])
   \<and> ((\<exists>e\<in>set (app s). is_classify_or_summarize e) \<longrightarrow>
      uploaded_file s \<noteq> None \<and> azure_key s \<noteq> [] \<and> azure_endpoint s \<noteq> [] \<and> button s)
   \<and> (uploaded_file s \<noteq> None \<and> azure_key s \<noteq> [] \<and> azure_endpoint s \<noteq> [] \<longrightarrow>
        Call_read_docx \<in> set (app s))
   \<and> (uploaded_file s = Some file \<and> read_docx file = Returns lines \<and> lines \<noteq> []
        \<and> azure_key s \<noteq> [] \<and> azure_endpoint s \<noteq> [] \<and> button s \<longrightarrow>
        Call_split_qa lines \<in> set (app s))
   \<and> (azure_key s = [] \<or> azure_endpoint s = [] \<longrightarrow>
        app s = [St_warning
                   (py ''Please enter your Azure Language Key and Endpoint in the sidebar.'')])
   \<and> (azure_key s \<noteq> [] \<and> azure_endpoint s \<noteq> [] \<and> uploaded_file s = None \<longrightarrow>
        app s = [St_info (py '' Please upload a .docx file to get started.'')])
   \<and> py ''Please enter your Azure Language Key and Endpoint in the sidebar.''
       \<noteq> py '' Please upload a .docx file to get started.''"
proof -
  have pipeline: "(\<exists>e\<in>set (app s). is_pipeline e) \<longrightarrow>
      uploaded_file s \<noteq> None \<and> azure_key s \<noteq> [] \<and> azure_endpoint s \<noteq> []"
    using app_gate_closed [of s] by blast
  have triggered: "(\<exists>e\<in>set (app s). is_classify_or_summarize e) \<longrightarrow>
      uploaded_file s \<noteq> None \<and> azure_key s \<noteq> [] \<and> azure_endpoint s \<noteq> [] \<and> button s"
    using app_gate_closed [of s] app_not_pressed [of s] classify_or_summarize_is_pipeline
    by blast
  have extraction:
    "uploaded_file s \<noteq> None \<and> azure_key s \<noteq> [] \<and> azure_endpoint s \<noteq> [] \<longrightarrow>
        Call_read_docx \<in> set (app s)"
    using app_gate_open [of s] by blast
  have runs: "uploaded_file s = Some file \<and> read_docx file = Returns lines \<and> lines \<noteq> []
        \<and> azure_key s \<noteq> [] \<and> azure_endpoint s \<noteq> [] \<and> button s \<longrightarrow>
        Call_split_qa lines \<in> set (app s)"
    by (simp add: app_def analyze_runs)
  have credentials: "azure_key s = [] \<or> azure_endpoint s = [] \<longrightarrow>
        app s = [St_warning
                   (py ''Please enter your Azure Language Key and Endpoint in the sidebar.'')]"
    by (auto simp: app_def)
  have upload: "azure_key s \<noteq> [] \<and> azure_endpoint s \<noteq> [] \<and> uploaded_file s = None \<longrightarrow>
        app s = [St_info (py '' Please upload a .docx file to get started.'')]"
    by (simp add: app_def)
  have differ: "py ''Please enter your Azure Language Key and Endpoint in the sidebar.''
       \<noteq> py '' Please upload a .docx file to get started.''"
    by (simp add: py_def)
  from pipeline triggered extraction runs credentials upload differ show ?thesis
    by (intro conjI)
qed

theorem pipeline_is_gated_witness:
  "app (session_with [] (py ''endpoint'') (Some (Returns [py ''Is this correct?''])) True)
     = [St_warning (py ''Please enter your Azure Language Key and Endpoint in the sidebar.'')]
   \<and> app (session_with (py ''key'') (py ''endpoint'') None True)
     = [St_info (py '' Please upload a .docx file to get started.'')]
   \<and> Call_read_docx
       \<in> set (app (session_with (py ''key'') (py ''endpoint'')
                  (Some (Returns [py '' Is this correct? '', [32, 9], py ''It works fine.'']))
                  False))
   \<and> Call_split_qa [py ''Is this correct?'', py ''It works fine.'']
       \<in> set (app (session_with (py ''key'') (py ''endpoint'')
                  (Some (Returns [py '' Is this correct? '', [32, 9], py ''It works fine.'']))
                  True))
   \<and> (\<exists>e\<in>set (app (session_with (py ''key'') (py ''endpoint'')
                  (Some (Returns [py '' Is this correct? '', [32, 9], py ''It works fine.'']))
                  True)). is_classify_or_summarize e)"
proof -
  have read:
    "read_docx (Returns [py '' Is this correct? '', [32, 9], py ''It works fine.''])
       = Returns [py ''Is this correct?'', py ''It works fine.'']"
    by (simp add: read_docx_def strip_def isspace_def py_def)
  have credentials:
    "app (session_with [] (py ''endpoint'') (Some (Returns [py ''Is this correct?''])) True)
       = [St_warning
            (py ''Please enter your Azure Language Key and Endpoint in the sidebar.'')]"
    using pipeline_is_gated
      [of "session_with [] (py ''endpoint'') (Some (Returns [py ''Is this correct?''])) True"]
    by (simp add: session_with_def)
  have upload:
    "app (session_with (py ''key'') (py ''endpoint'') None True)
       = [St_info (py '' Please upload a .docx file to get started.'')]"
    using pipeline_is_gated [of "session_with (py ''key'') (py ''endpoint'') None True"]
    by (simp add: session_with_def py_def)
  have extraction:
    "Call_read_docx
       \<in> set (app (session_with (py ''key'') (py ''endpoint'')
                  (Some (Returns [py '' Is this correct? '', [32, 9], py ''It works fine.'']))
                  False))"
    using pipeline_is_gated
      [of "session_with (py ''key'') (py ''endpoint'')
             (Some (Returns [py '' Is this correct? '', [32, 9], py ''It works fine.'']))
             False"]
    by (simp add: session_with_def py_def)
  have run:
    "Call_split_qa [py ''Is this correct?'', py ''It works fine.'']
       \<in> set (app (session_with (py ''key'') (py ''endpoint'')
                  (Some (Returns [py '' Is this correct? '', [32, 9], py ''It works fine.'']))
                  True))"
    using pipeline_is_gated
      [of "session_with (py ''key'') (py ''endpoint'')
             (Some (Returns [py '' Is this correct? '', [32, 9], py ''It works fine.'']))
             True"
          "Returns [py '' Is this correct? '', [32, 9], py ''It works fine.'']"
          "[py ''Is this correct?'', py ''It works fine.'']"]
      read
    by (simp add: session_with_def py_def)
  have "is_classify_or_summarize
          (Call_split_qa [py ''Is this correct?'', py ''It works fine.''])"
    by simp
  with run have "\<exists>e\<in>set (app (session_with (py ''key'') (py ''endpoint'')
                  (Some (Returns [py '' Is this correct? '', [32, 9], py ''It works fine.'']))
                  True)). is_classify_or_summarize e"
    by blast
  with credentials upload extraction run show ?thesis by simp
qed

text \<open>
  The claim C8 as it is stated fails for the first stage of the pipeline: with a file
  and both credentials, and the button not pressed, the run calls \<open>read_docx\<close>; and
  when the file cannot be parsed, the exception of \<open>read_docx\<close> leaves the script,
  again without the button.
\<close>

theorem extraction_runs_without_trigger:
  "\<not> button (session_with (py ''key'') (py ''endpoint'')
               (Some (Returns [py ''Is this correct?''])) False)
   \<and> app (session_with (py ''key'') (py ''endpoint'')
            (Some (Returns [py ''Is this correct?''])) False)
     = [Call_read_docx]
   \<and> is_pipeline Call_read_docx
   \<and> app (session_with (py ''key'') (py ''endpoint'')
            (Some (Raises (Exception (py ''File is not a zip file'')))) False)
     = [Call_read_docx, Uncaught (Exception (py ''File is not a zip file''))]"
  by (simp add: app_def session_with_def read_docx_def py_def)

text \<open>The examples of the specification, and a lower-case marker, which is no marker.\<close>

lemma classifier_examples:
  "split_qa [py ''Is this correct?''] = (py ''Is this correct?'', [])"
  "split_qa [py ''User A: hello''] = (py ''User A: hello'', [])"
  "split_qa [py ''Question: what time?''] = (py ''Question: what time?'', [])"
  "split_qa [py ''It works fine.''] = ([], py ''It works fine.'')"
  "split_qa [py ''user a: hello''] = ([], py ''user a: hello'')"
  "split_qa [py ''Why? Because.''] = ([], py ''Why? Because.'')"
  by code_simp+

end
